theory Spec2Isabelle
  imports Complex_Main
begin

section \<open>Numbers and errors\<close>

text \<open>
  The program computes with numpy doubles. A number is modelled as a finite real, on
  which arithmetic is exact, or as \<open>NaN\<close>, numpy's result of an invalid operation
  (\<open>0/0\<close>, \<open>arcsin\<close> outside \<open>[-1, 1]\<close>, \<open>sqrt\<close> of a negative number), which every
  later operation propagates. Rounding, overflow, signed zeros and the infinities are
  outside the model. numpy evaluates \<open>a / 0\<close> with \<open>a \<noteq> 0\<close> to an infinity; \<open>fdiv\<close>
  maps it to \<open>NaN\<close> as well, and the lemmas \<open>norm_np_zero\<close> and \<open>kurtosis\<close>'s own
  guard show that the program never divides a nonzero finite number by zero.

  What holds of the doubles only up to rounding is not stated over this model: that a
  sum does not depend on the order of its terms, that \<open>np.arctan2\<close> stays above \<open>-\<pi>\<close>,
  that the argument of \<open>np.arcsin\<close> stays within \<open>[-1, 1]\<close> after the normalisation, or
  that a computed variance is exactly zero.
\<close>

datatype fl = Fin real | NaN

fun fadd :: "fl \<Rightarrow> fl \<Rightarrow> fl" where
  "fadd (Fin a) (Fin b) = Fin (a + b)"
| "fadd _ _ = NaN"

fun fsub :: "fl \<Rightarrow> fl \<Rightarrow> fl" where
  "fsub (Fin a) (Fin b) = Fin (a - b)"
| "fsub _ _ = NaN"

fun fmul :: "fl \<Rightarrow> fl \<Rightarrow> fl" where
  "fmul (Fin a) (Fin b) = Fin (a * b)"
| "fmul _ _ = NaN"

fun fdiv :: "fl \<Rightarrow> fl \<Rightarrow> fl" where
  "fdiv (Fin a) (Fin b) = (if b = 0 then NaN else Fin (a / b))"
| "fdiv _ _ = NaN"

fun fsqrt :: "fl \<Rightarrow> fl" where
  "fsqrt (Fin a) = (if a < 0 then NaN else Fin (sqrt a))"
| "fsqrt NaN = NaN"

fun fpow :: "fl \<Rightarrow> nat \<Rightarrow> fl" where
  "fpow (Fin a) m = Fin (a ^ m)"
| "fpow NaN m = NaN"

text \<open>\<open>np.arcsin\<close>: \<open>NaN\<close> outside \<open>[-1, 1]\<close>.\<close>

fun farcsin :: "fl \<Rightarrow> fl" where
  "farcsin (Fin a) = (if - 1 \<le> a \<and> a \<le> 1 then Fin (arcsin a) else NaN)"
| "farcsin NaN = NaN"

text \<open>
  \<open>np.arctan2 y x\<close> on finite reals: the angle of the point \<open>(x, y)\<close>, \<open>0\<close> at the
  origin.
\<close>

definition arctan2 :: "real \<Rightarrow> real \<Rightarrow> real" where
  "arctan2 y x =
     (if 0 < x then arctan (y / x)
      else if x < 0 then (if 0 \<le> y then arctan (y / x) + pi else arctan (y / x) - pi)
      else if 0 < y then pi / 2
      else if y < 0 then - (pi / 2)
      else 0)"

fun farctan2 :: "fl \<Rightarrow> fl \<Rightarrow> fl" where
  "farctan2 (Fin y) (Fin x) = Fin (arctan2 y x)"
| "farctan2 _ _ = NaN"

primrec fsum :: "fl list \<Rightarrow> fl" where
  "fsum [] = Fin 0"
| "fsum (x # xs) = fadd x (fsum xs)"

text \<open>
  The exceptions of Python and numpy that the modelled code can raise. \<open>DegenerateVector\<close>
  and \<open>DegenerateSample\<close> are the error kinds the specification names; no statement of
  the source raises them.
\<close>

datatype error = IndexError | ValueError | ZeroDivisionError
  | DegenerateVector | DegenerateSample

section \<open>numpy arrays as nested lists\<close>

text \<open>
  A two-dimensional array is the list of its rows, a three-dimensional one the list of
  its planes; the arrays are rectangular with every dimension positive. An index beyond
  the last axis raises \<open>IndexError\<close>, a product of arrays whose shapes do not fit raises
  \<open>ValueError\<close>.
\<close>

text \<open>\<open>v[i]\<close>\<close>

definition item :: "fl list \<Rightarrow> nat \<Rightarrow> error + fl" where
  "item v i = (if i < length v then Inr (v ! i) else Inl IndexError)"

text \<open>\<open>v[i] = x\<close>\<close>

definition setitem :: "fl list \<Rightarrow> nat \<Rightarrow> fl \<Rightarrow> error + fl list" where
  "setitem v i x = (if i < length v then Inr (v[i := x]) else Inl IndexError)"

text \<open>\<open>a[:, i]\<close>\<close>

definition column :: "fl list list \<Rightarrow> nat \<Rightarrow> error + fl list" where
  "column a i =
     (if list_all (\<lambda>row. i < length row) a then Inr (map (\<lambda>row. row ! i) a)
      else Inl IndexError)"

text \<open>\<open>a[:, :, i]\<close>\<close>

definition slice3 :: "fl list list list \<Rightarrow> nat \<Rightarrow> error + fl list list" where
  "slice3 a i =
     (if list_all (list_all (\<lambda>v. i < length v)) a then Inr (map (map (\<lambda>v. v ! i)) a)
      else Inl IndexError)"

text \<open>\<open>np.dot(m, v)\<close> of a matrix and a vector\<close>

definition dot :: "fl list list \<Rightarrow> fl list \<Rightarrow> error + fl list" where
  "dot m v =
     (if list_all (\<lambda>row. length row = length v) m
      then Inr (map (\<lambda>row. fsum (map2 fmul row v)) m)
      else Inl ValueError)"

text \<open>\<open>np.linalg.norm(v)\<close> of a vector: the root of the sum of the squares.\<close>

definition norm_np :: "fl list \<Rightarrow> fl" where
  "norm_np v = fsqrt (fsum (map (\<lambda>x. fmul x x) v))"

section \<open>GroundLOC\<close>

definition GroundLOC_Re :: fl where
  "GroundLOC_Re = Fin (6378137 / 1000)"

definition GroundLOC_r2d :: fl where
  "GroundLOC_r2d = fdiv (Fin 180) (Fin pi)"

record GroundLOC =
  G_n :: nat
  O_IE :: "fl list list list"
  r_e2b_I :: "fl list list"
  lats :: "fl list"
  lons :: "fl list"

text \<open>\<open>GroundLOC.__init__\<close>: every array starts as zeros of its declared shape.\<close>

definition GroundLOC_init :: "nat \<Rightarrow> GroundLOC" where
  "GroundLOC_init m =
     \<lparr>G_n = m,
      O_IE = replicate 3 (replicate 3 (replicate m (Fin 0))),
      r_e2b_I = replicate 6 (replicate m (Fin 0)),
      lats = replicate m (Fin 0),
      lons = replicate m (Fin 0)\<rparr>"

text \<open>
  The body of the loop of \<open>GroundLOC.execute\<close> at sample \<open>i\<close>. The attributes \<open>pos\<close>,
  \<open>npos\<close> and \<open>g_pos\<close> are scratch values, overwritten at every sample.
\<close>

definition execute_sample :: "GroundLOC \<Rightarrow> nat \<Rightarrow> error + GroundLOC" where
  "execute_sample s i =
     (case column (take 3 (r_e2b_I s)) i of Inl e \<Rightarrow> Inl e | Inr pos \<Rightarrow>
      let npos = map (\<lambda>x. fmul (fdiv x (norm_np pos)) GroundLOC_Re) pos in
      case slice3 (O_IE s) i of Inl e \<Rightarrow> Inl e | Inr m \<Rightarrow>
      case dot (transpose m) npos of Inl e \<Rightarrow> Inl e | Inr g_pos \<Rightarrow>
      case item g_pos 2 of Inl e \<Rightarrow> Inl e | Inr g2 \<Rightarrow>
      case setitem (lats s) i (fmul (farcsin (fdiv g2 GroundLOC_Re)) GroundLOC_r2d) of
        Inl e \<Rightarrow> Inl e | Inr lats' \<Rightarrow>
      case item g_pos 1 of Inl e \<Rightarrow> Inl e | Inr g1 \<Rightarrow>
      case item g_pos 0 of Inl e \<Rightarrow> Inl e | Inr g0 \<Rightarrow>
      case setitem (lons s) i (fmul (farctan2 g1 g0) GroundLOC_r2d) of
        Inl e \<Rightarrow> Inl e | Inr lons' \<Rightarrow>
      Inr (s\<lparr>lats := lats', lons := lons'\<rparr>))"

text \<open>The loop \<open>for i in xrange(self.n)\<close>; an exception ends it.\<close>

fun execute_loop :: "GroundLOC \<Rightarrow> nat list \<Rightarrow> error + GroundLOC" where
  "execute_loop s [] = Inr s"
| "execute_loop s (i # is) =
     (case execute_sample s i of Inl e \<Rightarrow> Inl e | Inr s' \<Rightarrow> execute_loop s' is)"

definition GroundLOC_execute :: "GroundLOC \<Rightarrow> error + GroundLOC" where
  "GroundLOC_execute s = execute_loop s [0..<G_n s]"


subsection \<open>The projection of one sample, on reals\<close>











subsection \<open>Shapes and the values of one sample\<close>

definition shape2 :: "nat \<Rightarrow> nat \<Rightarrow> 'a list list \<Rightarrow> bool" where
  "shape2 a b r = (length r = a \<and> list_all (\<lambda>row. length row = b) r)"

definition shape3 :: "nat \<Rightarrow> nat \<Rightarrow> nat \<Rightarrow> 'a list list list \<Rightarrow> bool" where
  "shape3 a b c x = (length x = a \<and> list_all (shape2 b c) x)"

definition pos_at :: "fl list list \<Rightarrow> nat \<Rightarrow> fl list" where
  "pos_at r i = [r ! 0 ! i, r ! 1 ! i, r ! 2 ! i]"

definition mat_at :: "fl list list list \<Rightarrow> nat \<Rightarrow> fl list list" where
  "mat_at x i = [[x ! 0 ! 0 ! i, x ! 0 ! 1 ! i, x ! 0 ! 2 ! i],
                 [x ! 1 ! 0 ! i, x ! 1 ! 1 ! i, x ! 1 ! 2 ! i],
                 [x ! 2 ! 0 ! i, x ! 2 ! 1 ! i, x ! 2 ! 2 ! i]]"

definition npos_at :: "fl list list \<Rightarrow> nat \<Rightarrow> fl list" where
  "npos_at r i = map (\<lambda>x. fmul (fdiv x (norm_np (pos_at r i))) GroundLOC_Re) (pos_at r i)"

definition g_pos_at :: "fl list list list \<Rightarrow> fl list list \<Rightarrow> nat \<Rightarrow> fl list" where
  "g_pos_at x r i = map (\<lambda>row. fsum (map2 fmul row (npos_at r i))) (transpose (mat_at x i))"

definition lat_at :: "fl list list list \<Rightarrow> fl list list \<Rightarrow> nat \<Rightarrow> fl" where
  "lat_at x r i = fmul (farcsin (fdiv (g_pos_at x r i ! 2) GroundLOC_Re)) GroundLOC_r2d"

definition lon_at :: "fl list list list \<Rightarrow> fl list list \<Rightarrow> nat \<Rightarrow> fl" where
  "lon_at x r i = fmul (farctan2 (g_pos_at x r i ! 1) (g_pos_at x r i ! 0)) GroundLOC_r2d"

section \<open>Uniformity\<close>

text \<open>
  \<open>scipy.stats.kurtosis\<close> with its defaults (\<open>fisher=True\<close>, \<open>bias=True\<close>), as in the
  scipy releases that run under Python 2: the mean of an empty array is \<open>NaN\<close>, the
  central moments are biased, and \<open>np.where(m2 == 0, 0, m4 / m2**2.0)\<close> gives \<open>0\<close> to
  a sample of zero variance before \<open>3\<close> is subtracted. Later releases return \<open>NaN\<close> in
  that branch; the theorems below do not rest on its value. No release raises an
  exception.
\<close>

definition fmean :: "fl list \<Rightarrow> fl" where
  "fmean xs = fdiv (fsum xs) (Fin (real (length xs)))"

definition moment :: "fl list \<Rightarrow> nat \<Rightarrow> fl" where
  "moment xs m =
     (if m = 1 then Fin 0 else fmean (map (\<lambda>x. fpow (fsub x (fmean xs)) m) xs))"

definition kurtosis :: "fl list \<Rightarrow> fl" where
  "kurtosis xs =
     (let m2 = moment xs 2; m4 = moment xs 4;
          vals = (if m2 = Fin 0 then Fin 0 else fdiv m4 (fpow m2 2))
      in fsub vals (Fin 3))"

text \<open>\<open>Uniformity.execute\<close>: the sample is one-dimensional, \<open>flatten\<close> leaves it as it is.\<close>

definition Uniformity_execute :: "fl list \<Rightarrow> error + fl" where
  "Uniformity_execute sample = Inr (fpow (fadd (kurtosis sample) (fdiv (Fin 6) (Fin 5))) 2)"

subsection \<open>Excess kurtosis, on reals\<close>







section \<open>CADRE_Launch\<close>

text \<open>The inputs of the component \<open>Orbit_Initial\<close> that the search sets.\<close>

record Orbit_Initial =
  altPerigee :: fl
  altApogee :: fl
  RAAN :: fl
  Inc :: fl
  argPerigee :: fl

text \<open>
  The components \<open>Orbit_Initial\<close>, \<open>Orbit_Dynamics\<close>, \<open>Comm_EarthsSpin\<close> and
  \<open>Comm_EarthsSpinMtx\<close> come from the modules \<open>orbit\<close> and \<open>comm\<close>. The assembly is
  modelled over any choice of them: the default inputs of \<open>Orbit_Initial\<close>, and each
  \<open>execute\<close> as a function from the component's inputs (and the \<open>n\<close> it was built
  with) to its output.
\<close>

record externals =
  Orbit_Initial_init :: Orbit_Initial
  Orbit_Initial_execute :: "Orbit_Initial \<Rightarrow> fl list"
  Orbit_Dynamics_execute :: "nat \<Rightarrow> fl \<Rightarrow> fl list \<Rightarrow> fl list list"
  Comm_EarthsSpin_execute :: "nat \<Rightarrow> fl list \<Rightarrow> fl list list"
  Comm_EarthsSpinMtx_execute :: "nat \<Rightarrow> fl list list \<Rightarrow> fl list list list"

record CADRE_Launch =
  A_n :: nat
  A_t :: "fl list"
  t1 :: fl
  t2 :: fl
  A_h :: fl
  Orbit_Initial_c :: Orbit_Initial
  GroundLOC_c :: GroundLOC
  Lon_uniform_k :: fl
  Lat_uniform_k :: fl

text \<open>
  \<open>CADRE_Launch.__init__(n)\<close>. \<open>np.zeros((n,))\<close> raises \<open>ValueError\<close> for a negative
  \<open>n\<close>; \<open>h = (self.t2 - self.t1) / (self.n - 1)\<close> divides floats and raises
  \<open>ZeroDivisionError\<close> for \<open>n = 1\<close>; \<open>self.t = np.array(range(0, n)) * h\<close>.
\<close>

definition CADRE_Launch_init :: "externals \<Rightarrow> int \<Rightarrow> error + CADRE_Launch" where
  "CADRE_Launch_init ext m =
     (if m < 0 then Inl ValueError
      else if m - 1 = 0 then Inl ZeroDivisionError
      else
        let h = fdiv (fsub (Fin 43200) (Fin 0)) (Fin (real_of_int (m - 1)))
        in Inr \<lparr>A_n = nat m,
                A_t = map (\<lambda>i. fmul (Fin (real i)) h) [0..<nat m],
                t1 = Fin 0,
                t2 = Fin 43200,
                A_h = h,
                Orbit_Initial_c = Orbit_Initial_init ext,
                GroundLOC_c = GroundLOC_init (nat m),
                Lon_uniform_k = Fin 0,
                Lat_uniform_k = Fin 0\<rparr>)"

text \<open>
  \<open>a.run()\<close>: the workflow executes the components in the order they were added,
  \<open>Orbit_Initial\<close>, \<open>Orbit_Dynamics\<close>, \<open>Comm_EarthsSpin\<close>, \<open>Comm_EarthsSpinMtx\<close>,
  \<open>GroundLOC\<close>, \<open>Lon_uniform\<close>, \<open>Lat_uniform\<close>, and each connection hands an output to
  the input it is connected to.
\<close>

definition run :: "externals \<Rightarrow> CADRE_Launch \<Rightarrow> error + CADRE_Launch" where
  "run ext a =
     (let r0 = Orbit_Initial_execute ext (Orbit_Initial_c a);
          r = Orbit_Dynamics_execute ext (A_n a) (A_h a) r0;
          q = Comm_EarthsSpin_execute ext (A_n a) (A_t a);
          x = Comm_EarthsSpinMtx_execute ext (A_n a) q
      in
      case GroundLOC_execute ((GroundLOC_c a)\<lparr>O_IE := x, r_e2b_I := r\<rparr>) of
        Inl e \<Rightarrow> Inl e | Inr g \<Rightarrow>
      case Uniformity_execute (lons g) of Inl e \<Rightarrow> Inl e | Inr k_lon \<Rightarrow>
      case Uniformity_execute (lats g) of Inl e \<Rightarrow> Inl e | Inr k_lat \<Rightarrow>
      Inr (a\<lparr>GroundLOC_c := g, Lon_uniform_k := k_lon, Lat_uniform_k := k_lat\<rparr>))"

text \<open>The four assignments of \<open>f(orbit)\<close>.\<close>

definition f_set :: "Orbit_Initial \<Rightarrow> fl list \<Rightarrow> error + Orbit_Initial" where
  "f_set p orbit =
     (case item orbit 0 of Inl e \<Rightarrow> Inl e | Inr o0 \<Rightarrow>
      case item orbit 1 of Inl e \<Rightarrow> Inl e | Inr o1 \<Rightarrow>
      case item orbit 2 of Inl e \<Rightarrow> Inl e | Inr o2 \<Rightarrow>
      Inr (p\<lparr>altPerigee := o0, altApogee := o0, RAAN := o1, Inc := o2\<rparr>))"

text \<open>\<open>f(orbit)\<close>: the objective handed to \<open>fmin_slsqp\<close>, with the assembly it leaves.\<close>

definition f_orbit :: "externals \<Rightarrow> CADRE_Launch \<Rightarrow> fl list \<Rightarrow> error + fl \<times> CADRE_Launch" where
  "f_orbit ext a orbit =
     (case f_set (Orbit_Initial_c a) orbit of Inl e \<Rightarrow> Inl e | Inr p \<Rightarrow>
      case run ext (a\<lparr>Orbit_Initial_c := p\<rparr>) of Inl e \<Rightarrow> Inl e | Inr a' \<Rightarrow>
      Inr (fadd (Lat_uniform_k a') (Lon_uniform_k a'), a'))"

subsection \<open>The search with fmin_slsqp\<close>















section \<open>Concrete inputs\<close>

text \<open>
  One sample, the identity as its rotation matrix, and a state history of zeros: the
  position vector of sample \<open>0\<close> has norm zero.
\<close>

definition unit_state :: GroundLOC where
  "unit_state = \<lparr>G_n = 1,
      O_IE = [[[Fin 1], [Fin 0], [Fin 0]], [[Fin 0], [Fin 1], [Fin 0]], [[Fin 0], [Fin 0], [Fin 1]]],
      r_e2b_I = [[Fin 0], [Fin 0], [Fin 0], [Fin 0], [Fin 0], [Fin 0]],
      lats = [Fin 0], lons = [Fin 0]\<rparr>"



text \<open>
  Stand-ins for the external components, an assembly of two samples over them, two
  points of the declared box (one whose altitudes differ, one with another argument of
  perigee than \<open>orbit0\<close>), and a proposal rule that proposes one candidate and then
  reports convergence.
\<close>

definition orbit0 :: Orbit_Initial where
  "orbit0 = \<lparr>altPerigee = Fin 600, altApogee = Fin 600, RAAN = Fin 0, Inc = Fin 45,
     argPerigee = Fin 0\<rparr>"

definition ext0 :: externals where
  "ext0 = \<lparr>Orbit_Initial_init = orbit0,
     Orbit_Initial_execute = (\<lambda>p. [altPerigee p, Fin 0, Fin 0, Fin 0, Fin 0, Fin 0]),
     Orbit_Dynamics_execute = (\<lambda>m h r0. map (replicate m) r0),
     Comm_EarthsSpin_execute = (\<lambda>m t. replicate 4 (replicate m (Fin 0))),
     Comm_EarthsSpinMtx_execute = (\<lambda>m q.
       [[replicate m (Fin 1), replicate m (Fin 0), replicate m (Fin 0)],
        [replicate m (Fin 0), replicate m (Fin 1), replicate m (Fin 0)],
        [replicate m (Fin 0), replicate m (Fin 0), replicate m (Fin 1)]])\<rparr>"

definition launch2 :: CADRE_Launch where
  "launch2 = \<lparr>A_n = 2, A_t = [Fin 0, Fin 43200], t1 = Fin 0, t2 = Fin 43200,
     A_h = Fin 43200, Orbit_Initial_c = orbit0, GroundLOC_c = GroundLOC_init 2,
     Lon_uniform_k = Fin 0, Lat_uniform_k = Fin 0\<rparr>"




section \<open>Properties of GroundLOC\<close>

lemma list3: "length xs = 3 \<Longrightarrow> xs = [xs ! 0, xs ! 1, xs ! 2]"
proof -
  assume l: "length xs = 3"
  then obtain a ys where 1: "xs = a # ys" by (cases xs) auto
  with l obtain b zs where 2: "ys = b # zs" by (cases ys) auto
  with 1 l obtain c ws where 3: "zs = c # ws" by (cases zs) auto
  with 1 2 l have "ws = []" by simp
  with 1 2 3 show ?thesis by simp
qed

lemma take3: "3 \<le> length xs \<Longrightarrow> take 3 xs = [xs ! 0, xs ! 1, xs ! 2]"
  using list3 [of "take 3 xs"] by simp

lemma shape2_row: "shape2 a b r \<Longrightarrow> j < a \<Longrightarrow> length (r ! j) = b"
  by (simp add: shape2_def list_all_length)

lemma shape3_plane: "shape3 a b c x \<Longrightarrow> j < a \<Longrightarrow> shape2 b c (x ! j)"
  by (simp add: shape3_def list_all_length)

lemma column_pos:
  assumes "shape2 6 n r" "i < n"
  shows "column (take 3 r) i = Inr (pos_at r i)"
proof -
  have l: "length r = 6" using assms by (simp add: shape2_def)
  have t: "take 3 r = [r ! 0, r ! 1, r ! 2]" using l by (simp add: take3)
  have "length (r ! 0) = n" "length (r ! 1) = n" "length (r ! 2) = n"
    using assms shape2_row [of 6 n r] by simp_all
  then show ?thesis using assms by (simp add: t column_def pos_at_def)
qed

lemma shape2_3:
  assumes a: "shape2 3 n a"
  shows "a = [a ! 0, a ! 1, a ! 2] \<and> length (a ! 0) = n \<and> length (a ! 1) = n \<and> length (a ! 2) = n"
proof -
  have "length a = 3" using a by (simp add: shape2_def)
  then have "a = [a ! 0, a ! 1, a ! 2]" by (rule list3)
  moreover have "length (a ! 0) = n" "length (a ! 1) = n" "length (a ! 2) = n"
    using a shape2_row [of 3 n a] by simp_all
  ultimately show ?thesis by blast
qed

lemma slice3_mat:
  assumes "shape3 3 3 n x" "i < n"
  shows "slice3 x i = Inr (mat_at x i)"
proof -
  have l: "length x = 3" using assms by (simp add: shape3_def)
  have p: "shape2 3 n (x ! 0)" "shape2 3 n (x ! 1)" "shape2 3 n (x ! 2)"
    using assms shape3_plane [of 3 3 n x] by simp_all
  have x: "x = [x ! 0, x ! 1, x ! 2]" using l by (rule list3)
  note r = shape2_3 [of n]
  obtain a0 a1 a2 where a: "x ! 0 = [a0, a1, a2]" "length a0 = n" "length a1 = n" "length a2 = n"
    using r [OF p(1)] by metis
  obtain b0 b1 b2 where b: "x ! 1 = [b0, b1, b2]" "length b0 = n" "length b1 = n" "length b2 = n"
    using r [OF p(2)] by metis
  obtain c0 c1 c2 where c: "x ! 2 = [c0, c1, c2]" "length c0 = n" "length c1 = n" "length c2 = n"
    using r [OF p(3)] by metis
  have "x = [[a0, a1, a2], [b0, b1, b2], [c0, c1, c2]]" using x a b c by simp
  then show ?thesis using a b c assms(2) by (simp add: slice3_def mat_at_def)
qed

lemma transpose3: "transpose [[a, b, c], [d, e, f], [g, h, k]] = [[a, d, g], [b, e, h], [c, f, k]]"
  by (simp add: transpose.simps)

lemma execute_sample_ok:
  assumes "shape2 6 n (r_e2b_I s)" "shape3 3 3 n (O_IE s)" "i < n"
    "length (lats s) = n" "length (lons s) = n"
  shows "execute_sample s i =
    Inr (s\<lparr>lats := (lats s)[i := lat_at (O_IE s) (r_e2b_I s) i],
           lons := (lons s)[i := lon_at (O_IE s) (r_e2b_I s) i]\<rparr>)"
proof -
  have c: "column (take 3 (r_e2b_I s)) i = Inr (pos_at (r_e2b_I s) i)"
    using assms by (simp add: column_pos)
  have m: "slice3 (O_IE s) i = Inr (mat_at (O_IE s) i)"
    using assms by (simp add: slice3_mat)
  have d: "dot (transpose (mat_at (O_IE s) i)) (npos_at (r_e2b_I s) i) = Inr (g_pos_at (O_IE s) (r_e2b_I s) i)"
    by (simp add: dot_def mat_at_def transpose3 npos_at_def pos_at_def g_pos_at_def)
  have l: "length (g_pos_at (O_IE s) (r_e2b_I s) i) = 3"
    by (simp add: g_pos_at_def mat_at_def transpose3)
  show ?thesis
    unfolding execute_sample_def c m sum.case Let_def npos_at_def [symmetric] d
    using assms l by (simp add: item_def setitem_def lat_at_def lon_at_def)
qed

lemma execute_loop_append:
  "execute_loop s (xs @ ys) =
     (case execute_loop s xs of Inl e \<Rightarrow> Inl e | Inr s' \<Rightarrow> execute_loop s' ys)"
  by (induction xs arbitrary: s) (auto split: sum.splits)

lemma fill_step:
  assumes "m < length l"
  shows "(map f [0..<m] @ drop m l)[m := f m] = map f [0..<Suc m] @ drop (Suc m) l"
proof -
  have "drop m l = l ! m # drop (Suc m) l" using assms by (simp add: Cons_nth_drop_Suc)
  then show ?thesis by (simp add: list_update_append)
qed

lemma execute_loop_fill:
  assumes "shape2 6 n (r_e2b_I s)" "shape3 3 3 n (O_IE s)"
    "length (lats s) = n" "length (lons s) = n" "m \<le> n"
  shows "execute_loop s [0..<m] =
    Inr (s\<lparr>lats := map (lat_at (O_IE s) (r_e2b_I s)) [0..<m] @ drop m (lats s),
           lons := map (lon_at (O_IE s) (r_e2b_I s)) [0..<m] @ drop m (lons s)\<rparr>)"
  using assms(5)
proof (induction m)
  case 0
  then show ?case by simp
next
  case (Suc m)
  let ?s = "s\<lparr>lats := map (lat_at (O_IE s) (r_e2b_I s)) [0..<m] @ drop m (lats s),
           lons := map (lon_at (O_IE s) (r_e2b_I s)) [0..<m] @ drop m (lons s)\<rparr>"
  have 1: "execute_loop s [0..<m] = Inr ?s" using Suc by simp
  have 2: "execute_sample ?s m = Inr (?s\<lparr>lats := (lats ?s)[m := lat_at (O_IE ?s) (r_e2b_I ?s) m],
           lons := (lons ?s)[m := lon_at (O_IE ?s) (r_e2b_I ?s) m]\<rparr>)"
    using assms Suc.prems by (intro execute_sample_ok [of n]) auto
  show ?case
    using assms Suc.prems by (simp add: execute_loop_append 1 2 fill_step del: upt_Suc add: upt_Suc_append)
qed

lemma GroundLOC_execute_map:
  assumes "shape2 6 (G_n s) (r_e2b_I s)" "shape3 3 3 (G_n s) (O_IE s)"
    "length (lats s) = G_n s" "length (lons s) = G_n s"
  shows "GroundLOC_execute s =
    Inr (s\<lparr>lats := map (lat_at (O_IE s) (r_e2b_I s)) [0..<G_n s],
           lons := map (lon_at (O_IE s) (r_e2b_I s)) [0..<G_n s]\<rparr>)"
  using execute_loop_fill [OF assms, of "G_n s"] assms by (simp add: GroundLOC_execute_def)


lemma fmul_NaN [simp]: "fmul x NaN = NaN"
  by (cases x) simp_all

lemma fadd_NaN [simp]: "fadd x NaN = NaN"
  by (cases x) simp_all

lemma fsum_squares:
  "fsum (map (\<lambda>x. fmul x x) v) = Fin t \<Longrightarrow> 0 \<le> t \<and> (t = 0 \<longrightarrow> list_all (\<lambda>x. x = Fin 0) v)"
proof (induction v arbitrary: t)
  case Nil
  then show ?case by simp
next
  case (Cons x v)
  from Cons.prems obtain a u where x: "x = Fin a" and u: "fsum (map (\<lambda>x. fmul x x) v) = Fin u"
    and t: "t = a * a + u"
    by (cases x; cases "fsum (map (\<lambda>x. fmul x x) v)") auto
  from Cons.IH [OF u] have "0 \<le> u" "u = 0 \<longrightarrow> list_all (\<lambda>x. x = Fin 0) v" by auto
  moreover have "0 \<le> a * a" by simp
  ultimately show ?case using x t by (auto simp: add_nonneg_eq_0_iff)
qed

lemma norm_np_zero: "norm_np v = Fin 0 \<Longrightarrow> list_all (\<lambda>x. x = Fin 0) v"
proof -
  assume a: "norm_np v = Fin 0"
  then obtain t where t: "fsum (map (\<lambda>x. fmul x x) v) = Fin t"
    by (cases "fsum (map (\<lambda>x. fmul x x) v)") (auto simp: norm_np_def)
  with a fsum_squares [OF t] show ?thesis by (auto simp: norm_np_def split: if_splits)
qed

















text \<open>
  C5, as the code has it: a sample whose position vector has norm zero does not make the
  projector fail. The normalisation divides zero by zero, and the latitude and the
  longitude of that sample are \<open>NaN\<close>.
\<close>

theorem groundloc_zero_position:
  assumes "shape2 6 (G_n s) (r_e2b_I s)" "shape3 3 3 (G_n s) (O_IE s)"
    "length (lats s) = G_n s" "length (lons s) = G_n s"
    "i < G_n s" "norm_np (pos_at (r_e2b_I s) i) = Fin 0"
  shows "\<exists>s'. GroundLOC_execute s = Inr s' \<and> lats s' ! i = NaN \<and> lons s' ! i = NaN"
proof -
  have z: "pos_at (r_e2b_I s) i = [Fin 0, Fin 0, Fin 0]"
    using norm_np_zero [OF assms(6)] by (simp add: pos_at_def)
  have np: "npos_at (r_e2b_I s) i = [NaN, NaN, NaN]"
    using assms(6) unfolding npos_at_def z by simp
  have g: "g_pos_at (O_IE s) (r_e2b_I s) i = [NaN, NaN, NaN]"
    unfolding g_pos_at_def np by (simp add: mat_at_def transpose3)
  have "lat_at (O_IE s) (r_e2b_I s) i = NaN" "lon_at (O_IE s) (r_e2b_I s) i = NaN"
    unfolding lat_at_def lon_at_def g by simp_all
  then show ?thesis
    unfolding GroundLOC_execute_map [OF assms(1-4)] using assms(5) by simp
qed

theorem groundloc_zero_position_witness:
  "norm_np (pos_at (r_e2b_I unit_state) 0) = Fin 0 \<and>
   (\<exists>s'. GroundLOC_execute unit_state = Inr s' \<and> lats s' ! 0 = NaN \<and> lons s' ! 0 = NaN)"
proof -
  have h: "shape2 6 (G_n unit_state) (r_e2b_I unit_state)"
    "shape3 3 3 (G_n unit_state) (O_IE unit_state)"
    "length (lats unit_state) = G_n unit_state" "length (lons unit_state) = G_n unit_state"
    "0 < G_n unit_state" "norm_np (pos_at (r_e2b_I unit_state) 0) = Fin 0"
    by (simp_all add: unit_state_def shape2_def shape3_def pos_at_def norm_np_def)
  show ?thesis using groundloc_zero_position [OF h] h(6) by simp
qed

text \<open>
  The claim C5 as the specification states it fails on the state of one sample with a
  zero position: \<open>execute\<close> returns, with \<open>NaN\<close> as latitude and longitude.
\<close>

theorem groundloc_zero_position_counterexample:
  "norm_np (pos_at (r_e2b_I unit_state) 0) = Fin 0 \<and>
   GroundLOC_execute unit_state \<noteq> Inl DegenerateVector \<and>
   GroundLOC_execute unit_state = Inr (unit_state\<lparr>lats := [NaN], lons := [NaN]\<rparr>)"
  by (simp add: unit_state_def pos_at_def norm_np_def GroundLOC_execute_def execute_sample_def
      column_def slice3_def dot_def transpose3 item_def setitem_def GroundLOC_Re_def)

text \<open>
  C10: two state histories of shape \<open>6 \<times> n\<close> that agree on the rows \<open>0\<close> to \<open>2\<close> at every
  sample give the same latitudes and longitudes under the same rotation matrices: the
  velocity rows \<open>3\<close> to \<open>5\<close> have no influence.
\<close>

theorem groundloc_velocity_independent:
  assumes "shape2 6 (G_n s) r" "shape2 6 (G_n s) r'" "shape3 3 3 (G_n s) (O_IE s)"
    "length (lats s) = G_n s" "length (lons s) = G_n s"
    "\<forall>a<3. \<forall>i<G_n s. r ! a ! i = r' ! a ! i"
  shows "\<exists>g g'. GroundLOC_execute (s\<lparr>r_e2b_I := r\<rparr>) = Inr g \<and>
    GroundLOC_execute (s\<lparr>r_e2b_I := r'\<rparr>) = Inr g' \<and> lats g = lats g' \<and> lons g = lons g'"
proof -
  have p: "\<And>i. i < G_n s \<Longrightarrow> pos_at r i = pos_at r' i"
    using assms(6) by (simp add: pos_at_def)
  then have "\<And>i. i < G_n s \<Longrightarrow> lat_at (O_IE s) r i = lat_at (O_IE s) r' i"
    "\<And>i. i < G_n s \<Longrightarrow> lon_at (O_IE s) r i = lon_at (O_IE s) r' i"
    by (simp_all add: lat_at_def lon_at_def g_pos_at_def npos_at_def)
  then have e: "map (lat_at (O_IE s) r) [0..<G_n s] = map (lat_at (O_IE s) r') [0..<G_n s]"
    "map (lon_at (O_IE s) r) [0..<G_n s] = map (lon_at (O_IE s) r') [0..<G_n s]"
    by simp_all
  have 1: "GroundLOC_execute (s\<lparr>r_e2b_I := r\<rparr>) =
    Inr (s\<lparr>r_e2b_I := r, lats := map (lat_at (O_IE s) r) [0..<G_n s],
           lons := map (lon_at (O_IE s) r) [0..<G_n s]\<rparr>)"
    using GroundLOC_execute_map [of "s\<lparr>r_e2b_I := r\<rparr>"] assms by simp
  have 2: "GroundLOC_execute (s\<lparr>r_e2b_I := r'\<rparr>) =
    Inr (s\<lparr>r_e2b_I := r', lats := map (lat_at (O_IE s) r') [0..<G_n s],
           lons := map (lon_at (O_IE s) r') [0..<G_n s]\<rparr>)"
    using GroundLOC_execute_map [of "s\<lparr>r_e2b_I := r'\<rparr>"] assms by simp
  show ?thesis unfolding 1 2 using e by simp
qed

theorem groundloc_velocity_independent_witness:
  "take 3 (r_e2b_I unit_state) = take 3 [[Fin 0], [Fin 0], [Fin 0], [Fin 1], [Fin 2], [Fin 3]] \<and>
   (\<exists>g g'. GroundLOC_execute (unit_state\<lparr>r_e2b_I := r_e2b_I unit_state\<rparr>) = Inr g \<and>
    GroundLOC_execute (unit_state\<lparr>r_e2b_I := [[Fin 0], [Fin 0], [Fin 0], [Fin 1], [Fin 2], [Fin 3]]\<rparr>) = Inr g' \<and>
    lats g = lats g' \<and> lons g = lons g')"
proof -
  let ?r' = "[[Fin 0], [Fin 0], [Fin 0], [Fin 1], [Fin 2], [Fin 3]]"
  have a: "\<forall>a<3. \<forall>i<G_n unit_state. r_e2b_I unit_state ! a ! i = ?r' ! a ! i"
    by (auto simp: unit_state_def less_Suc_eq numeral_3_eq_3)
  have h: "shape2 6 (G_n unit_state) (r_e2b_I unit_state)" "shape2 6 (G_n unit_state) ?r'"
    "shape3 3 3 (G_n unit_state) (O_IE unit_state)"
    "length (lats unit_state) = G_n unit_state" "length (lons unit_state) = G_n unit_state"
    by (simp_all add: unit_state_def shape2_def shape3_def)
  have t: "take 3 (r_e2b_I unit_state) = take 3 ?r'" by (simp add: unit_state_def)
  show ?thesis using groundloc_velocity_independent [OF h a] t by blast
qed



section \<open>Properties of Uniformity\<close>















section \<open>Properties of CADRE_Launch\<close>



lemma grid_increasing: "0 < (h::real) \<Longrightarrow> sorted_wrt (<) (map (\<lambda>i. real i * h) [0..<k])"
  by (simp add: sorted_wrt_map sorted_wrt_iff_nth_less)

text \<open>
  C9: for \<open>n \<ge> 2\<close> the assembly is built, with the window \<open>t1 = 0\<close>, \<open>t2 = 43200\<close>, the
  step \<open>h = (t2 - t1) / (n - 1)\<close> and the time grid \<open>t[i] = i \<sqdot> h\<close> of length \<open>n\<close>, which is
  strictly increasing.
\<close>

theorem time_grid:
  assumes "2 \<le> m"
  shows "\<exists>a h ts. CADRE_Launch_init ext m = Inr a \<and>
    t1 a = Fin 0 \<and> t2 a = Fin 43200 \<and> h = (43200 - 0) / real_of_int (m - 1) \<and>
    A_h a = Fin h \<and> A_t a = map Fin ts \<and> length ts = nat m \<and>
    (\<forall>i<nat m. ts ! i = real i * h) \<and> sorted_wrt (<) ts"
proof -
  let ?h = "(43200 - 0) / real_of_int (m - 1)"
  let ?ts = "map (\<lambda>i. real i * ?h) [0..<nat m]"
  have p: "0 < ?h" using assms by simp
  have m: "\<not> m < 0" "m - 1 \<noteq> 0" "real_of_int (m - 1) \<noteq> 0" "real_of_int m - 1 \<noteq> 0"
    using assms by auto
  have s: "sorted_wrt (<) ?ts"
    using p by (rule grid_increasing)
  have e: "map (\<lambda>i. fmul (Fin (real i)) (Fin ?h)) [0..<nat m] = map Fin ?ts"
    by simp
  obtain a where a: "CADRE_Launch_init ext m = Inr a" "t1 a = Fin 0" "t2 a = Fin 43200"
    "A_h a = Fin ?h" "A_t a = map Fin ?ts"
    using m e by (simp add: CADRE_Launch_init_def Let_def del: of_int_diff)
  have l: "length ?ts = nat m" "\<forall>i<nat m. ?ts ! i = real i * ?h"
    by simp_all
  show ?thesis
    using a s l by (intro exI [of _ a] exI [of _ ?h] exI [of _ ?ts]) blast
qed

theorem time_grid_witness:
  "(2::int) \<le> 2 \<and>
   (\<exists>a h ts. CADRE_Launch_init ext0 2 = Inr a \<and>
    t1 a = Fin 0 \<and> t2 a = Fin 43200 \<and> h = (43200 - 0) / real_of_int (2 - 1) \<and>
    A_h a = Fin h \<and> A_t a = map Fin ts \<and> length ts = nat 2 \<and>
    (\<forall>i<nat 2. ts ! i = real i * h) \<and> sorted_wrt (<) ts)"
proof -
  have h: "(2::int) \<le> 2" by simp
  show ?thesis using time_grid [OF h, of ext0] by simp
qed

lemma Uniformity_execute_Inr:
  "Uniformity_execute xs = Inr (fpow (fadd (kurtosis xs) (fdiv (Fin 6) (Fin 5))) 2)"
  by (simp add: Uniformity_execute_def)

lemma run_value:
  assumes "G_n (GroundLOC_c a) = A_n a" "length (lats (GroundLOC_c a)) = A_n a"
    "length (lons (GroundLOC_c a)) = A_n a"
    "r = Orbit_Dynamics_execute ext (A_n a) (A_h a) (Orbit_Initial_execute ext (Orbit_Initial_c a))"
    "x = Comm_EarthsSpinMtx_execute ext (A_n a) (Comm_EarthsSpin_execute ext (A_n a) (A_t a))"
    "shape2 6 (A_n a) r" "shape3 3 3 (A_n a) x"
    "g = (GroundLOC_c a)\<lparr>O_IE := x, r_e2b_I := r,
       lats := map (lat_at x r) [0..<A_n a], lons := map (lon_at x r) [0..<A_n a]\<rparr>"
  shows "GroundLOC_execute ((GroundLOC_c a)\<lparr>O_IE := x, r_e2b_I := r\<rparr>) = Inr g"
    and "run ext a =
      Inr (a\<lparr>GroundLOC_c := g,
        Lon_uniform_k := fpow (fadd (kurtosis (lons g)) (fdiv (Fin 6) (Fin 5))) 2,
        Lat_uniform_k := fpow (fadd (kurtosis (lats g)) (fdiv (Fin 6) (Fin 5))) 2\<rparr>)"
proof -
  let ?s = "(GroundLOC_c a)\<lparr>O_IE := x, r_e2b_I := r\<rparr>"
  show g: "GroundLOC_execute ?s = Inr g"
    using GroundLOC_execute_map [of ?s] assms(1,2,3,6,7,8) by simp
  show "run ext a =
      Inr (a\<lparr>GroundLOC_c := g,
        Lon_uniform_k := fpow (fadd (kurtosis (lons g)) (fdiv (Fin 6) (Fin 5))) 2,
        Lat_uniform_k := fpow (fadd (kurtosis (lats g)) (fdiv (Fin 6) (Fin 5))) 2\<rparr>)"
    unfolding run_def Let_def using g assms(4,5) by (simp add: Uniformity_execute_Inr)
qed

lemma f_orbit_value:
  assumes "G_n (GroundLOC_c a) = A_n a" "length (lats (GroundLOC_c a)) = A_n a"
    "length (lons (GroundLOC_c a)) = A_n a"
    "f_set (Orbit_Initial_c a) orbit = Inr p"
    "r = Orbit_Dynamics_execute ext (A_n a) (A_h a) (Orbit_Initial_execute ext p)"
    "x = Comm_EarthsSpinMtx_execute ext (A_n a) (Comm_EarthsSpin_execute ext (A_n a) (A_t a))"
    "shape2 6 (A_n a) r" "shape3 3 3 (A_n a) x"
  shows "\<exists>g k_lat k_lon a'.
    GroundLOC_execute ((GroundLOC_c a)\<lparr>O_IE := x, r_e2b_I := r\<rparr>) = Inr g \<and>
    lats g = map (lat_at x r) [0..<A_n a] \<and> lons g = map (lon_at x r) [0..<A_n a] \<and>
    Uniformity_execute (lats g) = Inr k_lat \<and> Uniformity_execute (lons g) = Inr k_lon \<and>
    f_orbit ext a orbit = Inr (fadd k_lat k_lon, a') \<and>
    GroundLOC_c a' = g \<and> Lat_uniform_k a' = k_lat \<and> Lon_uniform_k a' = k_lon \<and>
    Orbit_Initial_c a' = p \<and>
    A_n a' = A_n a \<and> A_h a' = A_h a \<and> A_t a' = A_t a \<and> G_n g = A_n a"
proof -
  let ?a = "a\<lparr>Orbit_Initial_c := p\<rparr>"
  let ?g = "(GroundLOC_c a)\<lparr>O_IE := x, r_e2b_I := r,
       lats := map (lat_at x r) [0..<A_n a], lons := map (lon_at x r) [0..<A_n a]\<rparr>"
  have g: "GroundLOC_execute ((GroundLOC_c a)\<lparr>O_IE := x, r_e2b_I := r\<rparr>) = Inr ?g"
    using run_value(1) [of ?a r ext x ?g] assms by simp
  have r: "run ext ?a =
      Inr (?a\<lparr>GroundLOC_c := ?g,
        Lon_uniform_k := fpow (fadd (kurtosis (lons ?g)) (fdiv (Fin 6) (Fin 5))) 2,
        Lat_uniform_k := fpow (fadd (kurtosis (lats ?g)) (fdiv (Fin 6) (Fin 5))) 2\<rparr>)"
    using run_value(2) [of ?a r ext x ?g] assms by simp
  show ?thesis
    unfolding f_orbit_def assms(4) sum.case r g
    using assms(1) by (simp add: Uniformity_execute_Inr)
qed


text \<open>
  C1: one evaluation of \<open>f\<close> returns the score of the latitudes plus the score of the
  longitudes, where the latitudes and longitudes are the outputs of \<open>GroundLOC\<close> on the
  state history propagated from the initial state of the parameters just set and on the
  rotation matrices of the time grid; every stage consumes the outputs of the stages before
  it.
\<close>

theorem pipeline_objective:
  assumes "G_n (GroundLOC_c a) = A_n a" "length (lats (GroundLOC_c a)) = A_n a"
    "length (lons (GroundLOC_c a)) = A_n a"
    "f_set (Orbit_Initial_c a) orbit = Inr p"
    "r = Orbit_Dynamics_execute ext (A_n a) (A_h a) (Orbit_Initial_execute ext p)"
    "x = Comm_EarthsSpinMtx_execute ext (A_n a) (Comm_EarthsSpin_execute ext (A_n a) (A_t a))"
    "shape2 6 (A_n a) r" "shape3 3 3 (A_n a) x"
  shows "\<exists>g k_lat k_lon a'.
    GroundLOC_execute ((GroundLOC_c a)\<lparr>O_IE := x, r_e2b_I := r\<rparr>) = Inr g \<and>
    lats g = map (lat_at x r) [0..<A_n a] \<and> lons g = map (lon_at x r) [0..<A_n a] \<and>
    Uniformity_execute (lats g) = Inr k_lat \<and> Uniformity_execute (lons g) = Inr k_lon \<and>
    f_orbit ext a orbit = Inr (fadd k_lat k_lon, a') \<and>
    GroundLOC_c a' = g \<and> Lat_uniform_k a' = k_lat \<and> Lon_uniform_k a' = k_lon \<and>
    Orbit_Initial_c a' = p"
  using f_orbit_value [OF assms] by blast

theorem pipeline_objective_witness:
  "f_set (Orbit_Initial_c launch2) [Fin 700, Fin 10, Fin 50] =
     Inr (orbit0\<lparr>altPerigee := Fin 700, altApogee := Fin 700, RAAN := Fin 10, Inc := Fin 50\<rparr>) \<and>
   (\<exists>g k_lat k_lon a'.
      Uniformity_execute (lats g) = Inr k_lat \<and> Uniformity_execute (lons g) = Inr k_lon \<and>
      f_orbit ext0 launch2 [Fin 700, Fin 10, Fin 50] = Inr (fadd k_lat k_lon, a') \<and>
      GroundLOC_c a' = g \<and> Lat_uniform_k a' = k_lat \<and> Lon_uniform_k a' = k_lon)"
proof -
  let ?p = "orbit0\<lparr>altPerigee := Fin 700, altApogee := Fin 700, RAAN := Fin 10, Inc := Fin 50\<rparr>"
  let ?r = "Orbit_Dynamics_execute ext0 (A_n launch2) (A_h launch2) (Orbit_Initial_execute ext0 ?p)"
  let ?x = "Comm_EarthsSpinMtx_execute ext0 (A_n launch2)
    (Comm_EarthsSpin_execute ext0 (A_n launch2) (A_t launch2))"
  have 1: "G_n (GroundLOC_c launch2) = A_n launch2"
    "length (lats (GroundLOC_c launch2)) = A_n launch2"
    "length (lons (GroundLOC_c launch2)) = A_n launch2"
    by (simp_all add: launch2_def GroundLOC_init_def)
  have 2: "f_set (Orbit_Initial_c launch2) [Fin 700, Fin 10, Fin 50] = Inr ?p"
    by (simp add: launch2_def f_set_def item_def)
  have 3: "shape2 6 (A_n launch2) ?r"
    by (simp add: ext0_def shape2_def)
  have 4: "shape3 3 3 (A_n launch2) ?x"
    by (simp add: ext0_def shape3_def shape2_def)
  show ?thesis
    using pipeline_objective [OF 1 2 refl refl 3 4] 2 by blast
qed















end
